theory Spec2Isabelle
  imports Complex_Main
begin

text \<open>
  A model of the two sources of the AURORA experiment of QDax: the sequence-to-sequence
  model (qdax/utils/seq2seq_model.py) and the experiment itself
  (tests/core_test/aurora_test.py), followed by the properties of the two that the
  specification states.
\<close>

section \<open>Arrays\<close>

text \<open>
  Floating-point numbers are idealised as reals throughout. A feature vector (the last
  axis of an array) is a list of reals, a two-dimensional array of shape (batch, features)
  is a list of feature vectors, one per sample.
\<close>

type_synonym vec = "real list"

text \<open>
  A three-dimensional array of shape (batch_size, seq_length, features): the two leading
  dimensions and the accessor \<open>sub a b t\<close> for \<open>a[b, t, :]\<close>.
\<close>

record array3 =
  shape0 :: nat
  shape1 :: nat
  sub :: "nat \<Rightarrow> nat \<Rightarrow> vec"

text \<open>\<open>a[:, t]\<close>: the slice of all samples at one position of axis 1.\<close>

definition slice_axis1 :: "array3 \<Rightarrow> nat \<Rightarrow> vec list" where
  "slice_axis1 a t = map (\<lambda>b. sub a b t) [0..<shape0 a]"

text \<open>The sequence of slices that a scan with \<open>in_axes=1\<close> feeds to its body.\<close>

definition in_axes1 :: "array3 \<Rightarrow> vec list list" where
  "in_axes1 a = map (slice_axis1 a) [0..<shape1 a]"

text \<open>The array that a scan with \<open>out_axes=1\<close> stacks from the outputs of its body.\<close>

definition out_axes1 :: "nat \<Rightarrow> vec list list \<Rightarrow> array3" where
  "out_axes1 batch_size ys =
     \<lparr>shape0 = batch_size, shape1 = length ys, sub = (\<lambda>b t. ys ! t ! b)\<rparr>"

text \<open>
  The lifted scan \<open>nn.scan\<close> with broadcast parameters: the body maps a carry and one slice
  to the next carry and one output; the outputs are collected in order.
\<close>

fun nn_scan :: "('c \<Rightarrow> 'x \<Rightarrow> 'c \<times> 'y) \<Rightarrow> 'c \<Rightarrow> 'x list \<Rightarrow> 'c \<times> 'y list" where
  "nn_scan f carry [] = (carry, [])"
| "nn_scan f carry (x # xs) =
     (let (carry', y) = f carry x;
          (final, ys) = nn_scan f carry' xs
      in (final, y # ys))"

section \<open>The sequence model (qdax/utils/seq2seq_model.py)\<close>

text \<open>
  The state of an LSTM is the tuple (c, h) of two arrays of shape (batch, hidden).
  \<open>nn.LSTMCell\<close> and \<open>nn.Dense\<close> belong to the Flax library: they are parameters of the
  model, functions of the (opaque) model parameters \<open>'p\<close> and of their inputs.
\<close>

type_synonym lstm_state = "vec list \<times> vec list"

type_synonym 'p lstm_cell = "'p \<Rightarrow> lstm_state \<Rightarrow> vec list \<Rightarrow> lstm_state \<times> vec list"

type_synonym 'p dense = "'p \<Rightarrow> vec list \<Rightarrow> vec list"

subsection \<open>EncoderLSTM\<close>

text \<open>\<open>jnp.where(is_eos[:, np.newaxis], old_state, new_state)\<close>, row by row.\<close>

definition select_carried_state :: "bool list \<Rightarrow> vec list \<Rightarrow> vec list \<Rightarrow> vec list" where
  "select_carried_state is_eos new_state old_state =
     map (\<lambda>(e, old, new). if e then old else new) (zip is_eos (zip old_state new_state))"

text \<open>
  One step of the encoder. The carry is (lstm_state, is_eos). The source's statement that
  would update \<open>is_eos\<close> is commented out, so the step returns \<open>is_eos\<close> as it received it.
\<close>

definition EncoderLSTM_call ::
  "'p lstm_cell \<Rightarrow> 'p \<Rightarrow> lstm_state \<times> bool list \<Rightarrow> vec list
     \<Rightarrow> (lstm_state \<times> bool list) \<times> vec list" where
  "EncoderLSTM_call LSTMCell params carry x =
     (let (lstm_state, is_eos) = carry;
          (new_lstm_state, y) = LSTMCell params lstm_state x;
          carried_lstm_state =
            (select_carried_state is_eos (fst new_lstm_state) (fst lstm_state),
             select_carried_state is_eos (snd new_lstm_state) (snd lstm_state))
      in ((carried_lstm_state, is_eos), y))"

text \<open>\<open>initialize_carry\<close>: the default state initialiser is zeros.\<close>

definition initialize_carry :: "nat \<Rightarrow> nat \<Rightarrow> lstm_state" where
  "initialize_carry batch_size hidden_size =
     (replicate batch_size (replicate hidden_size 0),
      replicate batch_size (replicate hidden_size 0))"

subsection \<open>Encoder\<close>

definition Encoder_call :: "'p lstm_cell \<Rightarrow> nat \<Rightarrow> 'p \<Rightarrow> array3 \<Rightarrow> lstm_state" where
  "Encoder_call LSTMCell hidden_size params inputs =
     (let batch_size = shape0 inputs;
          init_lstm_state = initialize_carry batch_size hidden_size;
          init_is_eos = replicate batch_size False;
          init_carry = (init_lstm_state, init_is_eos);
          ((final_state, _), _) =
             nn_scan (EncoderLSTM_call LSTMCell params) init_carry (in_axes1 inputs)
      in final_state)"

text \<open>
  For comparison, the encoder that the docstring of \<open>Encoder\<close> describes ("returning
  state after finding the EOS token in the input"): the step with the update of \<open>is_eos\<close>
  that the source has commented out, \<open>is_eos = jnp.logical_or(is_eos, x[:, eos_id])\<close>
  (there with 8 for \<open>eos_id\<close>). These two definitions are not part of the program.
\<close>

definition EncoderLSTM_call_documented ::
  "nat \<Rightarrow> 'p lstm_cell \<Rightarrow> 'p \<Rightarrow> lstm_state \<times> bool list \<Rightarrow> vec list
     \<Rightarrow> (lstm_state \<times> bool list) \<times> vec list" where
  "EncoderLSTM_call_documented eos_id LSTMCell params carry x =
     (let (lstm_state, is_eos) = carry;
          (new_lstm_state, y) = LSTMCell params lstm_state x;
          carried_lstm_state =
            (select_carried_state is_eos (fst new_lstm_state) (fst lstm_state),
             select_carried_state is_eos (snd new_lstm_state) (snd lstm_state));
          is_eos = map (\<lambda>(e, row). e \<or> row ! eos_id \<noteq> 0) (zip is_eos x)
      in ((carried_lstm_state, is_eos), y))"

definition Encoder_call_documented ::
  "nat \<Rightarrow> 'p lstm_cell \<Rightarrow> nat \<Rightarrow> 'p \<Rightarrow> array3 \<Rightarrow> lstm_state" where
  "Encoder_call_documented eos_id LSTMCell hidden_size params inputs =
     (let batch_size = shape0 inputs;
          init_lstm_state = initialize_carry batch_size hidden_size;
          init_is_eos = replicate batch_size False;
          init_carry = (init_lstm_state, init_is_eos);
          ((final_state, _), _) =
             nn_scan (EncoderLSTM_call_documented eos_id LSTMCell params) init_carry
               (in_axes1 inputs)
      in final_state)"

subsection \<open>DecoderLSTM and Decoder\<close>

definition DecoderLSTM_call ::
  "bool \<Rightarrow> 'p lstm_cell \<Rightarrow> 'p dense \<Rightarrow> 'p \<Rightarrow> lstm_state \<times> vec list \<Rightarrow> vec list
     \<Rightarrow> (lstm_state \<times> vec list) \<times> (vec list \<times> vec list)" where
  "DecoderLSTM_call teacher_force LSTMCell Dense params carry x =
     (let (lstm_state, last_prediction) = carry;
          x = (if \<not> teacher_force then last_prediction else x);
          (lstm_state, y) = LSTMCell params lstm_state x;
          logits = Dense params y
      in ((lstm_state, logits), (logits, logits)))"

text \<open>
  \<open>inputs[:, 0]\<close> is an index error when axis 1 of \<open>inputs\<close> has size 0: the decoder then
  returns no result (\<open>None\<close>). The scan stacks the two components of the outputs of its
  body separately, each along axis 1.
\<close>

definition Decoder_call ::
  "bool \<Rightarrow> 'p lstm_cell \<Rightarrow> 'p dense \<Rightarrow> 'p \<Rightarrow> array3 \<Rightarrow> lstm_state
     \<Rightarrow> (array3 \<times> array3) option" where
  "Decoder_call teacher_force LSTMCell Dense params inputs init_state =
     (if shape1 inputs = 0 then None
      else
        (let init_carry = (init_state, slice_axis1 inputs 0);
             (_, ys) = nn_scan (DecoderLSTM_call teacher_force LSTMCell Dense params)
                         init_carry (in_axes1 inputs);
             logits = out_axes1 (shape0 inputs) (map fst ys);
             predictions = out_axes1 (shape0 inputs) (map snd ys)
         in Some (logits, predictions)))"

subsection \<open>Seq2seq\<close>

definition Seq2seq_call ::
  "bool \<Rightarrow> nat \<Rightarrow> 'p lstm_cell \<Rightarrow> 'p lstm_cell \<Rightarrow> 'p dense \<Rightarrow> 'p \<Rightarrow> array3 \<Rightarrow> array3
     \<Rightarrow> (array3 \<times> array3) option" where
  "Seq2seq_call teacher_force hidden_size EncCell DecCell Dense params
       encoder_inputs decoder_inputs =
     (let init_decoder_state = Encoder_call EncCell hidden_size params encoder_inputs
      in Decoder_call teacher_force DecCell Dense params decoder_inputs init_decoder_state)"

definition Seq2seq_encode :: "'p lstm_cell \<Rightarrow> nat \<Rightarrow> 'p \<Rightarrow> array3 \<Rightarrow> vec list" where
  "Seq2seq_encode EncCell hidden_size params encoder_inputs =
     (let init_decoder_state = Encoder_call EncCell hidden_size params encoder_inputs;
          (final_output, hidden_state) = init_decoder_state
      in final_output)"

section \<open>The AURORA experiment (tests/core_test/aurora_test.py)\<close>

subsection \<open>The repertoire\<close>

text \<open>
  A fitness is a float; the value \<open>-jnp.inf\<close> marks an empty slot of the repertoire.
\<close>

datatype fitness = NegInf | Fin real

text \<open>
  The fields of the repertoire that the experiment reads and passes on. Genotypes and
  centroids are opaque to it.
\<close>

record ('g, 'c) repertoire =
  genotypes :: 'g
  centroids :: 'c
  fitnesses :: "fitness list"
  descriptors :: "vec list"
  observations :: array3
  l_value :: real

subsection \<open>metrics_fn\<close>

record metrics =
  qd_score :: real
  max_fitness :: fitness
  coverage :: real

fun fitness_max :: "fitness \<Rightarrow> fitness \<Rightarrow> fitness" where
  "fitness_max NegInf b = b"
| "fitness_max a NegInf = a"
| "fitness_max (Fin a) (Fin b) = Fin (max a b)"

text \<open>\<open>jnp.max\<close> of an array of fitnesses; a zero-size array is an error.\<close>

fun jnp_max :: "fitness list \<Rightarrow> fitness option" where
  "jnp_max [] = None"
| "jnp_max (x # xs) = Some (foldl fitness_max x xs)"

text \<open>\<open>jnp.sum(fitnesses, where=mask)\<close>, the mask being false exactly at the empty slots.\<close>

fun jnp_sum_where_occupied :: "fitness list \<Rightarrow> real" where
  "jnp_sum_where_occupied [] = 0"
| "jnp_sum_where_occupied (NegInf # fs) = jnp_sum_where_occupied fs"
| "jnp_sum_where_occupied (Fin x # fs) = x + jnp_sum_where_occupied fs"

text \<open>
  \<open>metrics_fn\<close>; \<open>reward_offset\<close> and \<open>episode_length\<close> are variables of the enclosing
  function. The function raises where \<open>jnp.max\<close> does.
\<close>

definition metrics_fn :: "real \<Rightarrow> real \<Rightarrow> ('g, 'c) repertoire \<Rightarrow> metrics option" where
  "metrics_fn reward_offset episode_length repertoire =
     (let grid_empty = map (\<lambda>f. f = NegInf) (fitnesses repertoire);
          qd_score0 = jnp_sum_where_occupied (fitnesses repertoire);
          qd_score' = qd_score0
             + reward_offset * episode_length * sum_list (map (\<lambda>e. 1 - of_bool e) grid_empty);
          coverage' = 100 * (sum_list (map (\<lambda>e. 1 - of_bool e) grid_empty)
                              / real (length grid_empty))
      in case jnp_max (fitnesses repertoire) of
           None \<Rightarrow> None
         | Some max_fitness' \<Rightarrow>
             Some \<lparr>qd_score = qd_score', max_fitness = max_fitness', coverage = coverage'\<rparr>)"

subsection \<open>The retrain schedule\<close>

text \<open>
  \<open>jnp.arange\<close> and \<open>jnp.cumsum\<close> work on 32-bit signed integers here; \<open>int32\<close> is the
  wrap-around of an integer into that range.
\<close>

definition int32 :: "int \<Rightarrow> int" where
  "int32 x = (x + 2 ^ 31) mod 2 ^ 32 - 2 ^ 31"


fun cumsum_from :: "int \<Rightarrow> int list \<Rightarrow> int list" where
  "cumsum_from acc [] = []"
| "cumsum_from acc (x # xs) = int32 (acc + x) # cumsum_from (int32 (acc + x)) xs"




subsection \<open>The collaborators of the experiment\<close>

text \<open>
  The experiment calls functions that are defined elsewhere: \<open>aurora.update\<close> (one
  generation of the algorithm; the emitter state it is given is \<open>None\<close> and the one it
  returns is dropped), \<open>train_seq2seq.lstm_ae_train\<close>, \<open>repertoire.init\<close>,
  \<open>jax.random.split\<close> and the LSTM cell of the encoder. They are parameters of the model
  of the experiment: \<open>'k\<close> is the type of random keys, \<open>'p\<close> of model parameters, \<open>'m\<close>
  of the metrics of one generation.
\<close>

record ('g, 'c, 'p, 'k, 'm) collaborators =
  aurora_update ::
    "('g, 'c) repertoire \<Rightarrow> 'k \<Rightarrow> 'p \<Rightarrow> vec \<Rightarrow> vec \<Rightarrow> ('g, 'c) repertoire \<times> 'm \<times> 'k"
  lstm_ae_train ::
    "'k \<Rightarrow> ('g, 'c) repertoire \<Rightarrow> 'p \<Rightarrow> int \<Rightarrow> nat \<Rightarrow> 'p \<times> vec \<times> vec"
  repertoire_init ::
    "'g \<Rightarrow> 'c \<Rightarrow> fitness list \<Rightarrow> vec list \<Rightarrow> array3 \<Rightarrow> real \<Rightarrow> ('g, 'c) repertoire"
  random_split :: "'k \<Rightarrow> 'k \<times> 'k"
  encoder_LSTMCell :: "'p lstm_cell"

text \<open>The body of the scan over the generations: one call of \<open>aurora.update\<close>.\<close>

definition update_scan_fn ::
  "('g, 'c, 'p, 'k, 'm) collaborators
     \<Rightarrow> ('g, 'c) repertoire \<times> 'k \<times> 'p \<times> vec \<times> vec \<Rightarrow> unit
     \<Rightarrow> (('g, 'c) repertoire \<times> 'k \<times> 'p \<times> vec \<times> vec) \<times> 'm" where
  "update_scan_fn E carry unused =
     (let (repertoire, random_key, model_params, mean_observations, std_observations) = carry;
          (repertoire, metrics, random_key) =
             aurora_update E repertoire random_key model_params
               mean_observations std_observations
      in ((repertoire, random_key, model_params, mean_observations, std_observations),
          metrics))"

subsection \<open>The variables of the experiment\<close>

text \<open>
  The local variables of \<open>test_aurora\<close> that live across the iterations of its main loop.
  The variables that an iteration assigns before it reads them (\<open>subkey\<close>,
  \<open>normalized_observations\<close>, \<open>new_descriptors\<close>, \<open>num_indivs\<close>, \<open>current_error\<close>,
  \<open>change_rate\<close>, \<open>l_value\<close>, \<open>new_num_indivs\<close>) are bound by \<open>let\<close> where they are used.
\<close>

record ('g, 'c, 'p, 'k, 'm) locals =
  repertoire :: "('g, 'c) repertoire"
  random_key :: 'k
  model_params :: 'p
  mean_observations :: vec
  std_observations :: vec
  metrics :: "'m list"
  schedules :: "int list"
  current_step_estimation :: int
  num_iterations :: int
  previous_error :: int
  iteration :: int

definition episode_length :: int where
  "episode_length = 100"

definition hidden_size :: nat where
  "hidden_size = 5"

definition log_freq :: nat where
  "log_freq = 5"

definition n_target :: int where
  "n_target = 1024"

text \<open>\<open>prop_gain = 1 * 10e-6\<close>\<close>

definition prop_gain :: real where
  "prop_gain = 1 * (10 / 10 ^ 6)"

text \<open>\<open>jnp.sum(repertoire.fitnesses != -jnp.inf)\<close>\<close>

definition num_occupied :: "fitness list \<Rightarrow> int" where
  "num_occupied fs = int (length (filter (\<lambda>f. f \<noteq> NegInf) fs))"

text \<open>
  \<open>(observations - mean) / std\<close>, the two vectors broadcast along the last axis. (A
  division by a zero of \<open>std\<close> is 0 in HOL and an infinity or a NaN in the program.)
\<close>

definition normalize_observations :: "array3 \<Rightarrow> vec \<Rightarrow> vec \<Rightarrow> array3" where
  "normalize_observations obs mean std =
     obs\<lparr>sub := (\<lambda>b t. map (\<lambda>(x, m, s). (x - m) / s) (zip (sub obs b t) (zip mean std)))\<rparr>"

subsection \<open>One iteration of the main loop\<close>

text \<open>
  The first part of an iteration: \<open>log_freq\<close> generations of the algorithm under
  \<open>jax.lax.scan\<close> (with \<open>length=log_freq\<close> and no inputs: the scan of the body over
  \<open>log_freq\<close> units), then the two counters.
\<close>

definition scan_phase ::
  "('g, 'c, 'p, 'k, 'm) collaborators \<Rightarrow> int
     \<Rightarrow> ('g, 'c, 'p, 'k, 'm) locals \<Rightarrow> ('g, 'c, 'p, 'k, 'm) locals" where
  "scan_phase E batch_size st =
     (let ((repertoire', random_key', model_params', mean_observations', std_observations'),
           metrics') =
             nn_scan (update_scan_fn E)
               (repertoire st, random_key st, model_params st,
                mean_observations st, std_observations st)
               (replicate log_freq ())
      in st\<lparr>repertoire := repertoire', random_key := random_key',
            model_params := model_params', mean_observations := mean_observations',
            std_observations := std_observations', metrics := metrics',
            num_iterations := iteration st * int log_freq,
            current_step_estimation :=
              current_step_estimation st + batch_size * episode_length * int log_freq\<rparr>)"

text \<open>The branch \<open>if (iteration + 1) in schedules\<close>: retrain the model, encode again.\<close>

definition retrain_branch ::
  "('g, 'c, 'p, 'k, 'm) collaborators
     \<Rightarrow> ('g, 'c, 'p, 'k, 'm) locals \<Rightarrow> ('g, 'c, 'p, 'k, 'm) locals" where
  "retrain_branch E st =
     (let (random_key', subkey) = random_split E (random_key st);
          (model_params', mean_observations', std_observations') =
             lstm_ae_train E subkey (repertoire st) (model_params st) (iteration st)
               hidden_size;
          normalized_observations =
             normalize_observations (observations (repertoire st))
               mean_observations' std_observations';
          new_descriptors =
             Seq2seq_encode (encoder_LSTMCell E) hidden_size model_params'
               normalized_observations;
          repertoire' =
             repertoire_init E (genotypes (repertoire st)) (centroids (repertoire st))
               (fitnesses (repertoire st)) new_descriptors (observations (repertoire st))
               (l_value (repertoire st))
      in st\<lparr>random_key := random_key', model_params := model_params',
            mean_observations := mean_observations',
            std_observations := std_observations', repertoire := repertoire'\<rparr>)"

text \<open>The branch \<open>elif iteration % 2 == 0\<close>: a new value of the threshold.\<close>

definition controller_branch ::
  "('g, 'c, 'p, 'k, 'm) collaborators
     \<Rightarrow> ('g, 'c, 'p, 'k, 'm) locals \<Rightarrow> ('g, 'c, 'p, 'k, 'm) locals" where
  "controller_branch E st =
     (let num_indivs = num_occupied (fitnesses (repertoire st));
          current_error = num_indivs - n_target;
          change_rate = current_error - previous_error st;
          l_value' = l_value (repertoire st)
                      + prop_gain * real_of_int current_error
                      + prop_gain * real_of_int change_rate;
          repertoire' =
             repertoire_init E (genotypes (repertoire st)) (centroids (repertoire st))
               (fitnesses (repertoire st)) (descriptors (repertoire st))
               (observations (repertoire st)) l_value'
      in st\<lparr>previous_error := current_error, repertoire := repertoire'\<rparr>)"

datatype branch = Retrain | Controller | Neither

text \<open>
  The conditions of the \<open>if\<close> and of the \<open>elif\<close>, in the order of the source. The index
  that is looked up in the schedule is \<open>iteration + 1\<close>; the cadence of the controller is
  on \<open>iteration\<close>.
\<close>

definition select_branch :: "int list \<Rightarrow> int \<Rightarrow> branch" where
  "select_branch schedules' iteration' =
     (if iteration' + 1 \<in> set schedules' then Retrain
      else if iteration' mod 2 = 0 then Controller
      else Neither)"

definition loop_body ::
  "('g, 'c, 'p, 'k, 'm) collaborators \<Rightarrow> int
     \<Rightarrow> ('g, 'c, 'p, 'k, 'm) locals \<Rightarrow> ('g, 'c, 'p, 'k, 'm) locals" where
  "loop_body E batch_size st =
     (let st' = scan_phase E batch_size st
      in case select_branch (schedules st') (iteration st') of
           Retrain \<Rightarrow> retrain_branch E st'
         | Controller \<Rightarrow> controller_branch E st'
         | Neither \<Rightarrow> st')"

subsection \<open>The main loop\<close>




section \<open>Notions used in the statements\<close>

text \<open>
  An LSTM cell keeps the shape of the state: from a state of \<open>n\<close> rows it returns a state
  of \<open>n\<close> rows.
\<close>

definition shape_preserving :: "'p lstm_cell \<Rightarrow> 'p \<Rightarrow> nat \<Rightarrow> bool" where
  "shape_preserving LSTMCell params n \<longleftrightarrow>
     (\<forall>s x. length (fst s) = n \<and> length (snd s) = n \<longrightarrow>
        length (fst (fst (LSTMCell params s x))) = n \<and>
        length (snd (fst (LSTMCell params s x))) = n)"

text \<open>The fitnesses of the occupied slots, and the order of fitnesses.\<close>

fun occupied_fitnesses :: "fitness list \<Rightarrow> real list" where
  "occupied_fitnesses [] = []"
| "occupied_fitnesses (NegInf # fs) = occupied_fitnesses fs"
| "occupied_fitnesses (Fin x # fs) = x # occupied_fitnesses fs"

fun fitness_le :: "fitness \<Rightarrow> fitness \<Rightarrow> bool" where
  "fitness_le NegInf b = True"
| "fitness_le (Fin a) NegInf = False"
| "fitness_le (Fin a) (Fin b) = (a \<le> b)"

text \<open>
  Modelled from the spec: \<open>repertoire.init\<close> (the classmethod of the repertoire, in
  qdax/core/containers) is not among the sources. For the call that applies a new
  threshold the spec has: "apply the new L by rebuilding the archive in place with
  unchanged descriptors (re-running insert-style contested-cell resolution is not required
  since descriptors are unchanged; only future insertions use the new L)". The rebuilt
  archive holds the arrays and the threshold that the call is given.
\<close>

definition rebuild_in_place ::
  "'g \<Rightarrow> 'c \<Rightarrow> fitness list \<Rightarrow> vec list \<Rightarrow> array3 \<Rightarrow> real \<Rightarrow> ('g, 'c) repertoire" where
  "rebuild_in_place g c f d obs l =
     \<lparr>genotypes = g, centroids = c, fitnesses = f, descriptors = d, observations = obs,
      l_value = l\<rparr>"

text \<open>The repertoire that \<open>repertoire.init\<close> returns has the threshold that it was given.\<close>

definition keeps_threshold :: "('g, 'c, 'p, 'k, 'm) collaborators \<Rightarrow> bool" where
  "keeps_threshold E \<longleftrightarrow> (\<forall>g c f d obs l. l_value (repertoire_init E g c f d obs l) = l)"

section \<open>Concrete instances\<close>

text \<open>
  A cell that adds 1 to every entry of the state, whatever its input: the entries of the
  state count the steps that the cell has made. A dense layer that returns its input.
\<close>

definition counting_cell :: "'p lstm_cell" where
  "counting_cell params lstm_state x =
     ((map (map (\<lambda>v. v + 1)) (fst lstm_state), map (map (\<lambda>v. v + 1)) (snd lstm_state)),
      map (map (\<lambda>v. v + 1)) (snd lstm_state))"


text \<open>
  A batch of one sequence of three steps with nine features: the feature of index 8 is set
  at the step of index 1, the step after it is padding.
\<close>

definition eos_then_padding :: array3 where
  "eos_then_padding =
     \<lparr>shape0 = 1, shape1 = 3,
      sub = (\<lambda>b t. if t = 1 then [0, 0, 0, 0, 0, 0, 0, 0, 1]
                     else [0, 0, 0, 0, 0, 0, 0, 0, 0])\<rparr>"


text \<open>
  Collaborators for an experiment without genotypes: a generation changes the key only,
  the training returns the parameters incremented and fixed statistics, the repertoire is
  rebuilt from the arrays as they are.
\<close>

definition example_collaborators :: "(unit, unit, int, int, unit) collaborators" where
  "example_collaborators =
     \<lparr>aurora_update = (\<lambda>r k p m s. (r, (), k + 1)),
      lstm_ae_train = (\<lambda>k r p i h. (p + 1, [1], [2])),
      repertoire_init = rebuild_in_place,
      random_split = (\<lambda>k. (k + 1, k + 2)),
      encoder_LSTMCell = counting_cell\<rparr>"

text \<open>An empty repertoire of two slots, with one observation of one step for each.\<close>

definition example_repertoire :: "(unit, unit) repertoire" where
  "example_repertoire =
     \<lparr>genotypes = (), centroids = (), fitnesses = [NegInf, NegInf],
      descriptors = [[0, 0, 0, 0, 0], [0, 0, 0, 0, 0]],
      observations = \<lparr>shape0 = 2, shape1 = 1, sub = (\<lambda>b t. [3])\<rparr>,
      l_value = 1 / 100\<rparr>"

definition example_locals :: "int list \<Rightarrow> int \<Rightarrow> (unit, unit, int, int, unit) locals" where
  "example_locals schedules0 iteration0 =
     \<lparr>repertoire = example_repertoire, random_key = 0, model_params = 0,
      mean_observations = [0], std_observations = [1], metrics = [],
      schedules = schedules0, current_step_estimation = 0, num_iterations = 0,
      previous_error = - 1000, iteration = iteration0\<rparr>"

text \<open>A repertoire of four slots, two of them occupied.\<close>

definition partly_occupied :: "(unit, unit) repertoire" where
  "partly_occupied =
     \<lparr>genotypes = (), centroids = (), fitnesses = [NegInf, Fin (- 2), Fin 3, NegInf],
      descriptors = [], observations = \<lparr>shape0 = 4, shape1 = 0, sub = (\<lambda>b t. [])\<rparr>,
      l_value = 1 / 5\<rparr>"

section \<open>Properties of the sequence model\<close>

subsection \<open>The scan\<close>

lemma nn_scan_Cons_fst:
  "fst (nn_scan f c (x # xs)) = fst (nn_scan f (fst (f c x)) xs)"
  by (simp add: Let_def split: prod.splits)

lemma nn_scan_Cons_snd:
  "snd (nn_scan f c (x # xs)) = snd (f c x) # snd (nn_scan f (fst (f c x)) xs)"
  by (simp add: Let_def split: prod.splits)

lemma length_nn_scan: "length (snd (nn_scan f c xs)) = length xs"
  by (induction xs arbitrary: c) (simp_all add: nn_scan_Cons_snd del: nn_scan.simps(2))


subsection \<open>The decoder\<close>




subsection \<open>The encoder\<close>

lemma shape_preservingD:
  assumes "shape_preserving LSTMCell params n" "length (fst s) = n" "length (snd s) = n"
  shows "length (fst (fst (LSTMCell params s x))) = n"
    and "length (snd (fst (LSTMCell params s x))) = n"
  using assms unfolding shape_preserving_def by blast+

lemma select_carried_state_no_eos:
  "length new_state = n \<Longrightarrow> length old_state = n \<Longrightarrow>
   select_carried_state (replicate n False) new_state old_state = new_state"
  unfolding select_carried_state_def
  by (rule nth_equalityI) simp_all

lemma EncoderLSTM_call_no_eos:
  assumes "shape_preserving LSTMCell params n" "length (fst s) = n" "length (snd s) = n"
  shows "EncoderLSTM_call LSTMCell params (s, replicate n False) x =
           ((fst (LSTMCell params s x), replicate n False), snd (LSTMCell params s x))"
  using assms(2,3) shape_preservingD[OF assms, of x]
  by (simp add: EncoderLSTM_call_def Let_def case_prod_beta select_carried_state_no_eos)

lemma nn_scan_EncoderLSTM_no_eos:
  assumes "shape_preserving LSTMCell params n"
  shows "length (fst s) = n \<Longrightarrow> length (snd s) = n \<Longrightarrow>
         fst (nn_scan (EncoderLSTM_call LSTMCell params) (s, replicate n False) xs) =
           (foldl (\<lambda>s x. fst (LSTMCell params s x)) s xs, replicate n False)"
proof (induction xs arbitrary: s)
  case Nil
  then show ?case by simp
next
  case (Cons x xs)
  have sp: "length (fst (fst (LSTMCell params s x))) = n"
           "length (snd (fst (LSTMCell params s x))) = n"
    using shape_preservingD[OF assms Cons.prems] by simp_all
  show ?case
    using Cons.IH[OF sp] Cons.prems assms
    by (simp add: nn_scan_Cons_fst EncoderLSTM_call_no_eos del: nn_scan.simps(2))
qed

text \<open>
  The flags \<open>is_eos\<close> are false at the start and no step changes them: the encoder applies
  the cell at every step of the sequence, and its result is the state after the last step.
\<close>

lemma Encoder_call_consumes_every_step:
  assumes "shape_preserving LSTMCell params (shape0 inputs)"
  shows "Encoder_call LSTMCell hsize params inputs =
           foldl (\<lambda>s x. fst (LSTMCell params s x))
             (initialize_carry (shape0 inputs) hsize) (in_axes1 inputs)"
proof -
  have "fst (nn_scan (EncoderLSTM_call LSTMCell params)
          (initialize_carry (shape0 inputs) hsize, replicate (shape0 inputs) False)
          (in_axes1 inputs)) =
        (foldl (\<lambda>s x. fst (LSTMCell params s x))
           (initialize_carry (shape0 inputs) hsize) (in_axes1 inputs),
         replicate (shape0 inputs) False)"
    by (rule nn_scan_EncoderLSTM_no_eos[OF assms]) (simp_all add: initialize_carry_def)
  then show ?thesis
    by (simp add: Encoder_call_def Let_def case_prod_beta)
qed

text \<open>
  C3. The encoder does not stop at the end-of-sequence signal. On the batch
  \<open>eos_then_padding\<close>, whose sequence ends at the step of index 1, the counting cell has
  made three steps when the encoder returns: the padding after the end of the sequence
  has been consumed. The encoder of the docstring returns the state after two steps, held
  over the padding.
\<close>

theorem Encoder_call_ignores_eos:
  "Encoder_call counting_cell 2 () eos_then_padding = ([[3, 3]], [[3, 3]]) \<and>
   Encoder_call_documented 8 counting_cell 2 () eos_then_padding = ([[2, 2]], [[2, 2]])"
  by (simp add: Encoder_call_def EncoderLSTM_call_def Encoder_call_documented_def
      EncoderLSTM_call_documented_def initialize_carry_def in_axes1_def
      slice_axis1_def eos_then_padding_def counting_cell_def select_carried_state_def
      upt_rec numeral_2_eq_2 numeral_3_eq_3)

subsection \<open>encode\<close>





section \<open>Properties of the metrics\<close>

lemma Max_insert_max:
  fixes a :: real
  assumes "finite S"
  shows "Max (insert (max a x) S) = Max (insert a (insert x S))"
  using assms by (cases "S = {}") (simp_all add: max.assoc)

lemma foldl_fitness_max_NegInf:
  "foldl fitness_max NegInf fs =
     (if occupied_fitnesses fs = [] then NegInf else Fin (Max (set (occupied_fitnesses fs))))"
  and foldl_fitness_max_Fin:
  "foldl fitness_max (Fin a) fs = Fin (Max (set (a # occupied_fitnesses fs)))"
proof (induction fs arbitrary: a)
  case Nil
  { case 1 show ?case by simp }
  { case 2 show ?case by simp }
next
  case (Cons f fs)
  { case 1 show ?case using Cons by (cases f) simp_all }
  { case 2 show ?case using Cons
      by (cases f) (simp_all add: Max_insert_max del: Max_insert) }
qed

lemma jnp_max_occupied:
  "fs \<noteq> [] \<Longrightarrow>
   jnp_max fs = Some (if occupied_fitnesses fs = [] then NegInf
                      else Fin (Max (set (occupied_fitnesses fs))))"
proof (cases fs)
  case Nil
  assume "fs \<noteq> []"
  with Nil show ?thesis by simp
next
  case (Cons f fs')
  show ?thesis
    unfolding Cons
    by (cases f) (simp_all add: foldl_fitness_max_NegInf foldl_fitness_max_Fin)
qed

lemma set_occupied_fitnesses: "x \<in> set (occupied_fitnesses fs) \<longleftrightarrow> Fin x \<in> set fs"
  by (induction fs rule: occupied_fitnesses.induct) auto

lemma occupied_fitnesses_Nil: "occupied_fitnesses fs = [] \<longleftrightarrow> (\<forall>f\<in>set fs. f = NegInf)"
  by (induction fs rule: occupied_fitnesses.induct) auto

lemma max_occupied_in_set:
  assumes "fs \<noteq> []"
  defines "m \<equiv> (if occupied_fitnesses fs = [] then NegInf
                      else Fin (Max (set (occupied_fitnesses fs))))"
  shows "m \<in> set fs" and "\<forall>f\<in>set fs. fitness_le f m"
proof -
  show "m \<in> set fs"
  proof (cases "occupied_fitnesses fs = []")
    case True
    then have "\<forall>f\<in>set fs. f = NegInf" by (simp add: occupied_fitnesses_Nil)
    moreover obtain f where "f \<in> set fs" using assms(1) by (cases fs) auto
    ultimately show ?thesis using True by (auto simp: m_def)
  next
    case False
    then have "Max (set (occupied_fitnesses fs)) \<in> set (occupied_fitnesses fs)"
      by (intro Max_in) simp_all
    then show ?thesis using False by (simp add: m_def set_occupied_fitnesses)
  qed
  show "\<forall>f\<in>set fs. fitness_le f m"
  proof
    fix f assume f: "f \<in> set fs"
    show "fitness_le f m"
    proof (cases f)
      case NegInf
      then show ?thesis by simp
    next
      case (Fin x)
      then have x: "x \<in> set (occupied_fitnesses fs)"
        using f by (simp add: set_occupied_fitnesses)
      then have "occupied_fitnesses fs \<noteq> []" by auto
      moreover have "x \<le> Max (set (occupied_fitnesses fs))"
        using x by (intro Max_ge) simp_all
      ultimately show ?thesis using Fin by (simp add: m_def)
    qed
  qed
qed

text \<open>
  C10. \<open>max_fitness\<close> is the maximum of the fitnesses of all the slots, the empty ones
  with their sentinel included: a repertoire with an occupied slot has the maximum of the
  fitnesses of its occupied slots, a repertoire whose slots are all empty has the
  sentinel. (The repertoire has at least one slot: \<open>jnp.max\<close> has no value on an array of
  size zero.) \<open>metrics_fn\<close> is a function of the repertoire that returns the metrics only:
  the repertoire is as it was.
\<close>

theorem metrics_fn_max_fitness:
  assumes "fitnesses rep \<noteq> []"
  shows "\<exists>m. metrics_fn reward_offset ep_len rep = Some m \<and>
             max_fitness m \<in> set (fitnesses rep) \<and>
             (\<forall>f\<in>set (fitnesses rep). fitness_le f (max_fitness m)) \<and>
             max_fitness m =
               (if occupied_fitnesses (fitnesses rep) = [] then NegInf
                else Fin (Max (set (occupied_fitnesses (fitnesses rep)))))"
  using max_occupied_in_set[OF assms] jnp_max_occupied[OF assms]
  by (simp add: metrics_fn_def Let_def)

theorem metrics_fn_max_fitness_witness:
  "fitnesses partly_occupied \<noteq> [] \<and>
   (\<exists>m. metrics_fn 0 100 partly_occupied = Some m \<and> max_fitness m = Fin 3) \<and>
   fitnesses (partly_occupied\<lparr>fitnesses := [NegInf, NegInf]\<rparr>) \<noteq> [] \<and>
   (\<exists>m. metrics_fn 0 100 (partly_occupied\<lparr>fitnesses := [NegInf, NegInf]\<rparr>) = Some m \<and>
        max_fitness m = NegInf)"
  using metrics_fn_max_fitness[of partly_occupied 0 100]
    metrics_fn_max_fitness[of "partly_occupied\<lparr>fitnesses := [NegInf, NegInf]\<rparr>" 0 100]
  by (auto simp: partly_occupied_def)

section \<open>Properties of the retrain schedule\<close>







lemma length_cumsum_from: "length (cumsum_from acc xs) = length xs"
  by (induction xs arbitrary: acc) simp_all





section \<open>Properties of the experiment\<close>

subsection \<open>What each part of an iteration leaves unchanged\<close>

lemma scan_phase_frame:
  "schedules (scan_phase E bs st) = schedules st"
  "iteration (scan_phase E bs st) = iteration st"
  "previous_error (scan_phase E bs st) = previous_error st"
  by (simp_all add: scan_phase_def case_prod_beta Let_def)




lemma loop_body_Controller:
  "select_branch (schedules st) (iteration st) = Controller \<Longrightarrow>
   loop_body E bs st = controller_branch E (scan_phase E bs st)"
  by (simp add: loop_body_def scan_phase_frame Let_def)

lemma loop_body_Neither:
  "select_branch (schedules st) (iteration st) = Neither \<Longrightarrow>
   loop_body E bs st = scan_phase E bs st"
  by (simp add: loop_body_def scan_phase_frame Let_def)






subsection \<open>The iterations of the example\<close>

lemma scan_phase_example:
  "scan_phase example_collaborators 10 (example_locals sch i) =
     (example_locals sch i)\<lparr>random_key := 5, metrics := [(), (), (), (), ()],
        num_iterations := i * 5, current_step_estimation := 5000\<rparr>"
  by (simp add: scan_phase_def example_collaborators_def example_locals_def update_scan_fn_def
        log_freq_def episode_length_def eval_nat_numeral)

lemma keeps_threshold_example: "keeps_threshold example_collaborators"
  by (simp add: keeps_threshold_def example_collaborators_def rebuild_in_place_def)

lemma loop_body_example_controller:
  "loop_body example_collaborators 10 (example_locals [2, 6, 12] 2) =
     (example_locals [2, 6, 12] 2)\<lparr>random_key := 5, metrics := [(), (), (), (), ()],
        num_iterations := 10, current_step_estimation := 5000,
        previous_error := - 1024,
        repertoire := example_repertoire\<lparr>l_value := - 3 / 6250\<rparr>\<rparr>"
  unfolding loop_body_def scan_phase_example
  by (simp add: select_branch_def controller_branch_def
      example_locals_def example_repertoire_def example_collaborators_def rebuild_in_place_def
      num_occupied_def n_target_def prop_gain_def)


subsection \<open>The schedule\<close>



subsection \<open>The branches of an iteration\<close>





subsection \<open>The threshold\<close>

text \<open>
  C1 (as stated) fails: the controller branch does not clamp the threshold. With a
  threshold of 0.01, an empty repertoire and a previous error of -1000, the new threshold
  is 0.01 + 0.00001 * (-1024) + 0.00001 * (-24) = -0.00048.
\<close>

theorem controller_threshold_not_positive:
  "select_branch (schedules (example_locals [2, 6, 12] 2))
     (iteration (example_locals [2, 6, 12] 2)) = Controller \<and>
   l_value (repertoire (example_locals [2, 6, 12] 2)) = 1 / 100 \<and>
   l_value (repertoire (loop_body example_collaborators 10 (example_locals [2, 6, 12] 2)))
     = - 3 / 6250 \<and>
   l_value (repertoire (loop_body example_collaborators 10 (example_locals [2, 6, 12] 2)))
     < 0"
  by (simp add: loop_body_example_controller)
     (simp add: example_locals_def example_repertoire_def select_branch_def)

text \<open>
  C1 (amended). The new threshold is the current threshold plus the correction
  \<open>prop_gain * error + prop_gain * (error - previous_error)\<close>, unclamped: it lies in an
  interval from \<open>epsilon\<close> to \<open>L_max\<close> exactly when the correction lies between
  \<open>epsilon - L\<close> and \<open>L_max - L\<close>. (The threshold of the new repertoire is the one that
  \<open>repertoire.init\<close> was given.)
\<close>

theorem controller_threshold_unclamped:
  assumes "select_branch (schedules st) (iteration st) = Controller"
    and "keeps_threshold E"
  shows "let r = repertoire (scan_phase E bs st);
             error = num_occupied (fitnesses r) - n_target;
             correction = prop_gain * real_of_int error
                            + prop_gain * real_of_int (error - previous_error st);
             new_L = l_value (repertoire (loop_body E bs st))
         in new_L = l_value r + correction \<and>
            ((epsilon \<le> new_L \<and> new_L \<le> L_max) \<longleftrightarrow>
             (epsilon - l_value r \<le> correction \<and> correction \<le> L_max - l_value r))"
proof -
  have "l_value (repertoire (loop_body E bs st)) =
          l_value (repertoire (scan_phase E bs st))
          + (prop_gain
               * real_of_int (num_occupied (fitnesses (repertoire (scan_phase E bs st)))
                                - n_target)
             + prop_gain
               * real_of_int (num_occupied (fitnesses (repertoire (scan_phase E bs st)))
                                - n_target - previous_error st))"
    using assms(2)
    by (simp add: loop_body_Controller[OF assms(1)] controller_branch_def Let_def
          keeps_threshold_def scan_phase_frame)
  then show ?thesis
    unfolding Let_def by linarith
qed

theorem controller_threshold_unclamped_witness:
  "select_branch (schedules (example_locals [2, 6, 12] 2))
     (iteration (example_locals [2, 6, 12] 2)) = Controller \<and>
   keeps_threshold example_collaborators \<and>
   l_value (repertoire (loop_body example_collaborators 10 (example_locals [2, 6, 12] 2)))
     = 1 / 100 + (prop_gain * real_of_int (0 - 1024)
                    + prop_gain * real_of_int ((0 - 1024) - (- 1000))) \<and>
   \<not> (1 / 1000 \<le> l_value (repertoire (loop_body example_collaborators 10
                       (example_locals [2, 6, 12] 2))) \<and>
      l_value (repertoire (loop_body example_collaborators 10
                       (example_locals [2, 6, 12] 2))) \<le> 1)"
proof -
  have c: "select_branch (schedules (example_locals [2, 6, 12] 2))
             (iteration (example_locals [2, 6, 12] 2)) = Controller"
    by (simp add: example_locals_def select_branch_def)
  have occ: "num_occupied (fitnesses example_repertoire) = 0"
    by (simp add: num_occupied_def example_repertoire_def)
  have prev: "previous_error (example_locals sch i) = - 1000" for sch i
    by (simp add: example_locals_def)
  have rep: "repertoire (example_locals sch i) = example_repertoire" for sch i
    by (simp add: example_locals_def)
  have lv: "l_value example_repertoire = 1 / 100"
    by (simp add: example_repertoire_def)
  show ?thesis
    using c keeps_threshold_example
      controller_threshold_unclamped[OF c keeps_threshold_example, of 10 "1 / 1000" 1]
    by (simp add: Let_def scan_phase_example occ prev rep lv n_target_def prop_gain_def)
qed

subsection \<open>The retrain branch\<close>



subsection \<open>The controller branch and the arrays of the repertoire\<close>

text \<open>
  C6. In the controller branch \<open>repertoire.init\<close> is given the genotypes, the centroids,
  the fitnesses, the descriptors and the observations of the current repertoire, unchanged;
  only the threshold is new. With the rebuild in place of the spec, the new repertoire is
  the current one with the new threshold: no entry has been inserted again, moved or
  dropped under the new threshold.
\<close>

theorem controller_rebuild_keeps_arrays:
  assumes "select_branch (schedules st) (iteration st) = Controller"
  shows "let r = repertoire (scan_phase E bs st);
             r' = repertoire (loop_body E bs st)
         in (\<exists>l. r' = repertoire_init E (genotypes r) (centroids r) (fitnesses r)
                       (descriptors r) (observations r) l) \<and>
            (repertoire_init E = rebuild_in_place \<longrightarrow> r' = r\<lparr>l_value := l_value r'\<rparr>)"
  by (auto simp: loop_body_Controller[OF assms] controller_branch_def Let_def
        rebuild_in_place_def)

theorem controller_rebuild_keeps_arrays_witness:
  "select_branch (schedules (example_locals [2, 6, 12] 2))
     (iteration (example_locals [2, 6, 12] 2)) = Controller \<and>
   repertoire_init example_collaborators = rebuild_in_place \<and>
   repertoire (loop_body example_collaborators 10 (example_locals [2, 6, 12] 2))
     = example_repertoire\<lparr>l_value := - 3 / 6250\<rparr>"
proof -
  have c: "select_branch (schedules (example_locals [2, 6, 12] 2))
             (iteration (example_locals [2, 6, 12] 2)) = Controller"
    by (simp add: example_locals_def select_branch_def)
  have i: "repertoire_init example_collaborators = rebuild_in_place"
    by (simp add: example_collaborators_def)
  have rep: "repertoire (scan_phase example_collaborators 10 (example_locals sch i))
               = example_repertoire" for sch i
    by (simp add: scan_phase_example) (simp add: example_locals_def)
  have lv: "l_value (repertoire (loop_body example_collaborators 10
              (example_locals [2, 6, 12] 2))) = - 3 / 6250"
    by (simp add: loop_body_example_controller)
  show ?thesis
    using c i controller_rebuild_keeps_arrays[OF c, of example_collaborators 10]
    by (simp add: Let_def rep lv)
qed

end
